theory Spec2Isabelle
  imports Main "HOL-Library.Word"
begin

unbundle bit_operations_syntax

section \<open>The .NET scripting bridge of the engine (Source/Engine/Scripting/Runtime/DotNet.cpp)\<close>

text \<open>
  The bridge keeps its state in globals (\<^verbatim>\<open>CachedFunctions\<close>, \<^verbatim>\<open>classHandles\<close>,
  \<^verbatim>\<open>assemblyHandles\<close>), in function-local statics and in the wrapper objects it allocates.
  Here that state is one record passed through every function. The managed runtime on the
  other side of the boundary is a record of functions; every call that crosses the boundary
  is appended to a log. A crash, a failed assertion and a fatal log entry end the process,
  so they are error values; the macros \<^verbatim>\<open>CRASH\<close>, \<^verbatim>\<open>ASSERT\<close> and \<^verbatim>\<open>LOG\<close> are not among
  the sources, and the specification has a fatal entry logged and the process aborted, and
  an unexpected attribute value crash immediately. The host modelled is the CoreCLR one
  (\<^verbatim>\<open>DOTNET_HOST_CORECRL\<close>).
\<close>

subsection \<open>Values, errors\<close>

type_synonym handle = nat  \<comment> \<open>\<^verbatim>\<open>void*\<close> handed out by the runtime; \<^verbatim>\<open>nullptr\<close> is 0\<close>
type_synonym funptr = nat  \<comment> \<open>a resolved entry point\<close>
type_synonym ref = nat     \<comment> \<open>the address of a native wrapper object; \<^verbatim>\<open>nullptr\<close> is 0\<close>

datatype error =
    Fatal          \<comment> \<open>\<^verbatim>\<open>LOG(Fatal, ...)\<close>: logged, the process aborts\<close>
  | Crash          \<comment> \<open>the \<^verbatim>\<open>CRASH\<close> macro\<close>
  | AssertFailed   \<comment> \<open>a failed \<^verbatim>\<open>ASSERT\<close>\<close>
  | NullDeref      \<comment> \<open>a member access through a null or dangling pointer\<close>
  | OutOfFuel      \<comment> \<open>the recursion bound of the model was reached (not a behaviour of the code)\<close>

datatype MVisibility = Private | PrivateProtected | Internal | Protected | ProtectedInternal | Public

subsection \<open>System.Reflection attribute masks (the three enums at the top of the file)\<close>

abbreviation MTypeAttributes_VisibilityMask :: "32 word" where "MTypeAttributes_VisibilityMask \<equiv> 0x00000007"
abbreviation MTypeAttributes_NotPublic :: "32 word" where "MTypeAttributes_NotPublic \<equiv> 0x00000000"
abbreviation MTypeAttributes_Public :: "32 word" where "MTypeAttributes_Public \<equiv> 0x00000001"
abbreviation MTypeAttributes_NestedPublic :: "32 word" where "MTypeAttributes_NestedPublic \<equiv> 0x00000002"
abbreviation MTypeAttributes_NestedPrivate :: "32 word" where "MTypeAttributes_NestedPrivate \<equiv> 0x00000003"
abbreviation MTypeAttributes_NestedFamily :: "32 word" where "MTypeAttributes_NestedFamily \<equiv> 0x00000004"
abbreviation MTypeAttributes_NestedAssembly :: "32 word" where "MTypeAttributes_NestedAssembly \<equiv> 0x00000005"
abbreviation MTypeAttributes_NestedFamANDAssem :: "32 word" where "MTypeAttributes_NestedFamANDAssem \<equiv> 0x00000006"
abbreviation MTypeAttributes_NestedFamORAssem :: "32 word" where "MTypeAttributes_NestedFamORAssem \<equiv> 0x00000007"
abbreviation MTypeAttributes_ClassSemanticsMask :: "32 word" where "MTypeAttributes_ClassSemanticsMask \<equiv> 0x00000020"
abbreviation MTypeAttributes_Interface :: "32 word" where "MTypeAttributes_Interface \<equiv> 0x00000020"
abbreviation MTypeAttributes_Abstract :: "32 word" where "MTypeAttributes_Abstract \<equiv> 0x00000080"
abbreviation MTypeAttributes_Sealed :: "32 word" where "MTypeAttributes_Sealed \<equiv> 0x00000100"

abbreviation MMethodAttributes_MemberAccessMask :: "32 word" where "MMethodAttributes_MemberAccessMask \<equiv> 0x0007"
abbreviation MMethodAttributes_Private :: "32 word" where "MMethodAttributes_Private \<equiv> 0x0001"
abbreviation MMethodAttributes_FamANDAssem :: "32 word" where "MMethodAttributes_FamANDAssem \<equiv> 0x0002"
abbreviation MMethodAttributes_Assembly :: "32 word" where "MMethodAttributes_Assembly \<equiv> 0x0003"
abbreviation MMethodAttributes_Family :: "32 word" where "MMethodAttributes_Family \<equiv> 0x0004"
abbreviation MMethodAttributes_FamORAssem :: "32 word" where "MMethodAttributes_FamORAssem \<equiv> 0x0005"
abbreviation MMethodAttributes_Public :: "32 word" where "MMethodAttributes_Public \<equiv> 0x0006"
abbreviation MMethodAttributes_Static :: "32 word" where "MMethodAttributes_Static \<equiv> 0x0010"

abbreviation MFieldAttributes_FieldAccessMask :: "32 word" where "MFieldAttributes_FieldAccessMask \<equiv> 0x0007"
abbreviation MFieldAttributes_Private :: "32 word" where "MFieldAttributes_Private \<equiv> 0x0001"
abbreviation MFieldAttributes_FamANDAssem :: "32 word" where "MFieldAttributes_FamANDAssem \<equiv> 0x0002"
abbreviation MFieldAttributes_Assembly :: "32 word" where "MFieldAttributes_Assembly \<equiv> 0x0003"
abbreviation MFieldAttributes_Family :: "32 word" where "MFieldAttributes_Family \<equiv> 0x0004"
abbreviation MFieldAttributes_FamORAssem :: "32 word" where "MFieldAttributes_FamORAssem \<equiv> 0x0005"
abbreviation MFieldAttributes_Public :: "32 word" where "MFieldAttributes_Public \<equiv> 0x0006"
abbreviation MFieldAttributes_Static :: "32 word" where "MFieldAttributes_Static \<equiv> 0x0010"

subsection \<open>Records that cross the boundary\<close>

text \<open>
  The four \<^verbatim>\<open>Native...Definitions\<close> structs. A \<^verbatim>\<open>const char*\<close> is the text it points
  to; the runtime allocates these buffers, so each is a non-null pointer that the bridge
  has to release.
\<close>

record NativeClassDefinitions =
  typeHandle :: handle
  name :: string
  fullname :: string
  namespace :: string
  typeAttributes :: "32 word"

record NativeMethodDefinitions =
  md_name :: string
  numParameters :: int
  md_handle :: handle
  methodAttributes :: "32 word"

record NativeFieldDefinitions =
  fd_name :: string
  fieldHandle :: handle
  fieldType :: handle
  fieldAttributes :: "32 word"

record NativePropertyDefinitions =
  pd_name :: string
  getterHandle :: handle
  setterHandle :: handle
  getterAttributes :: "32 word"
  setterAttributes :: "32 word"

subsection \<open>The managed runtime\<close>

text \<open>
  What the host and the managed bootstrap class answer. \<^verbatim>\<open>get_function_pointer\<close> gives
  a return code and a pointer; the other fields are the entry points of
  \<^verbatim>\<open>FlaxEngine.NativeInterop\<close> that the functions below call, with their out-parameters
  as results. An array and its count are one list. \<open>rt_InvokeMethod\<close> takes the instance,
  the method handle, the argument array (\<open>None\<close> for a null array) and the exception slot
  (\<open>None\<close> for a null slot pointer, else its content) and gives the result and the slot
  afterwards. \<open>rt_ToString\<close> is \<^verbatim>\<open>MUtils::ToString\<close> (MUtils.h), which reads the
  characters of a managed string.
\<close>

record managed_env =
  rt_get_function_pointer :: "string \<Rightarrow> int \<times> funptr"
  rt_GetManagedClassFromType :: "handle \<Rightarrow> NativeClassDefinitions \<times> handle"
  rt_GetManagedClasses :: "handle \<Rightarrow> NativeClassDefinitions list"
  rt_TypeIsValueType :: "handle \<Rightarrow> bool"
  rt_TypeIsEnum :: "handle \<Rightarrow> bool"
  rt_GetClassMethods :: "handle \<Rightarrow> NativeMethodDefinitions list"
  rt_GetClassFields :: "handle \<Rightarrow> NativeFieldDefinitions list"
  rt_GetClassProperties :: "handle \<Rightarrow> NativePropertyDefinitions list"
  rt_GetObjectType :: "handle \<Rightarrow> handle"
  rt_InvokeMethod :: "handle \<Rightarrow> handle \<Rightarrow> handle list option \<Rightarrow> handle option \<Rightarrow> handle \<times> handle option"
  rt_NewGCHandleWeak :: "handle \<Rightarrow> bool \<Rightarrow> handle"
  rt_ToString :: "handle \<Rightarrow> string"

datatype call =
    host_lookup string                \<comment> \<open>\<^verbatim>\<open>get_function_pointer\<close> for a method name\<close>
  | managed_call string "handle list" \<comment> \<open>a call through a resolved pointer, with its handle arguments\<close>

subsection \<open>Wrapper objects\<close>

text \<open>
  Member wrappers are owned by their class (\<^verbatim>\<open>~MClass\<close> deletes them), so a class holds
  them by value; a null accessor of a property is \<open>None\<close>. Classes, assemblies and
  exception records are referred to by address.
\<close>

record MMethod =
  MMethod_handle :: handle
  MMethod_paramsCount :: int
  MMethod_parentClass :: ref
  MMethod_name :: string
  MMethod_visibility :: MVisibility
  MMethod_isStatic :: bool
  MMethod_hasCachedAttributes :: bool
  MMethod_hasCachedSignature :: bool

record MField =
  MField_handle :: handle
  MField_type :: handle
  MField_parentClass :: ref
  MField_name :: string
  MField_visibility :: MVisibility
  MField_isStatic :: bool
  MField_hasCachedAttributes :: bool

record MProperty =
  MProperty_parentClass :: ref
  MProperty_name :: string
  MProperty_hasCachedAttributes :: bool
  MProperty_hasGetMethod :: bool
  MProperty_getMethod :: "MMethod option"
  MProperty_hasSetMethod :: bool
  MProperty_setMethod :: "MMethod option"

record MClass =
  MClass_handle :: handle
  MClass_name :: string
  MClass_namespace :: string
  MClass_assembly :: ref
  MClass_fullname :: string
  MClass_visibility :: MVisibility
  MClass_isStatic :: bool
  MClass_isSealed :: bool
  MClass_isAbstract :: bool
  MClass_isInterface :: bool
  MClass_isValueType :: bool
  MClass_isEnum :: bool
  MClass_hasCachedProperties :: bool
  MClass_hasCachedFields :: bool
  MClass_hasCachedMethods :: bool
  MClass_hasCachedAttributes :: bool
  MClass_hasCachedEvents :: bool
  MClass_hasCachedInterfaces :: bool
  MClass_methods :: "MMethod list"
  MClass_fields :: "MField list"
  MClass_properties :: "MProperty list"

record MAssembly =
  MAssembly_handle :: handle
  MAssembly_isLoaded :: bool
  MAssembly_hasCachedClasses :: bool
  MAssembly_classes :: "(string \<times> ref) list"

record MException =
  Message :: string
  StackTrace :: string
  InnerException :: ref

subsection \<open>The state of the bridge\<close>

record bridge =
  CachedFunctions :: "(string \<times> funptr) list"
  statics :: "string \<rightharpoonup> funptr"
  classHandles :: "(handle \<times> ref) list"
  assemblyHandles :: "(handle \<times> ref) list"
  classes :: "ref \<rightharpoonup> MClass"
  assemblies :: "ref \<rightharpoonup> MAssembly"
  exceptions :: "ref \<rightharpoonup> MException"
  next_ref :: ref
  calls :: "call list"

text \<open>
  The three global dictionaries are lists of pairs (see \<open>Dictionary_Add\<close> below).
  \<open>statics\<close> holds the function-local \<^verbatim>\<open>static void* XPtr\<close> variables, one per entry
  point name (each name modelled here has one such variable). \<open>classes\<close>,
  \<open>assemblies\<close> and \<open>exceptions\<close> are the live wrapper objects by address, and
  \<open>next_ref\<close> is the last address the allocator handed out.
\<close>

definition initial_bridge :: bridge where
  "initial_bridge = \<lparr> CachedFunctions = [], statics = Map.empty, classHandles = [],
     assemblyHandles = [], classes = Map.empty, assemblies = Map.empty,
     exceptions = Map.empty, next_ref = 0, calls = [] \<rparr>"

subsection \<open>Dictionary and allocation\<close>

text \<open>
  Modelled from the spec: \<^verbatim>\<open>Dictionary<K, V>\<close> (Engine/Core/Collections/Dictionary.h is
  not among the sources). The identity map holds one wrapper per handle and the function
  cache one pointer per name, so a key is added once: adding a key that is present fails
  the container's assertion. \<^verbatim>\<open>TryGet\<close> looks a key up.
\<close>

definition Dictionary_TryGet :: "('k \<times> 'v) list \<Rightarrow> 'k \<Rightarrow> 'v option" where
  "Dictionary_TryGet d k = map_of d k"

definition Dictionary_Add :: "('k \<times> 'v) list \<Rightarrow> 'k \<Rightarrow> 'v \<Rightarrow> error + ('k \<times> 'v) list" where
  "Dictionary_Add d k v =
     (case Dictionary_TryGet d k of Some old \<Rightarrow> Inl AssertFailed | None \<Rightarrow> Inr (d @ [(k, v)]))"

definition Dictionary_IsEmpty :: "('k \<times> 'v) list \<Rightarrow> bool" where
  "Dictionary_IsEmpty d = (d = [])"

text \<open>
  Modelled from the spec: \<^verbatim>\<open>New<T>\<close> (Engine/Core/Memory/Memory.h is not among the
  sources). A wrapper is created on demand and lives until it is torn down, and an
  exception record owns its inner chain exclusively, so a new object never shares its
  address with another one: the allocator hands out the next address, never null and
  never one handed out before, and the constructor runs on it.
\<close>

definition allocate :: "bridge \<Rightarrow> ref \<times> bridge" where
  "allocate st = (Suc (next_ref st), st\<lparr>next_ref := Suc (next_ref st)\<rparr>)"

subsection \<open>The call gateway\<close>

text \<open>
  \<^verbatim>\<open>GetStaticMethodPointer\<close> of the CoreCLR host: a hit in \<^verbatim>\<open>CachedFunctions\<close> returns at
  once; otherwise one \<^verbatim>\<open>get_function_pointer\<close> call, fatal when its return code is not
  0, and the pointer is added to the cache.
\<close>

definition GetStaticMethodPointer :: "managed_env \<Rightarrow> string \<Rightarrow> bridge \<Rightarrow> error + (funptr \<times> bridge)" where
  "GetStaticMethodPointer env methodName st =
     (case Dictionary_TryGet (CachedFunctions st) methodName of
        Some fn \<Rightarrow> Inr (fn, st)
      | None \<Rightarrow>
          (let rc = fst (rt_get_function_pointer env methodName);
               fn = snd (rt_get_function_pointer env methodName);
               st1 = st\<lparr>calls := calls st @ [host_lookup methodName]\<rparr>
           in if rc \<noteq> 0 then Inl Fatal
              else (case Dictionary_Add (CachedFunctions st1) methodName fn of
                      Inl e \<Rightarrow> Inl e
                    | Inr d \<Rightarrow> Inr (fn, st1\<lparr>CachedFunctions := d\<rparr>))))"

text \<open>
  The pattern \<^verbatim>\<open>static void* XPtr = GetStaticMethodPointer(TEXT("X")); CallStaticMethod<...>(XPtr, ...)\<close>:
  the static is initialised the first time control reaches it, then the call goes through
  the pointer. The value the runtime returns is read from \<open>managed_env\<close> by the caller.
\<close>

definition CallStaticMethod :: "managed_env \<Rightarrow> string \<Rightarrow> handle list \<Rightarrow> bridge \<Rightarrow> error + bridge" where
  "CallStaticMethod env methodName args st =
     (case statics st methodName of
        Some fn \<Rightarrow> Inr (st\<lparr>calls := calls st @ [managed_call methodName args]\<rparr>)
      | None \<Rightarrow>
          (case GetStaticMethodPointer env methodName st of
             Inl e \<Rightarrow> Inl e
           | Inr (fn, st1) \<Rightarrow>
               Inr (st1\<lparr>statics := (statics st1)(methodName \<mapsto> fn),
                        calls := calls st1 @ [managed_call methodName args]\<rparr>)))"

text \<open>\<^verbatim>\<open>MCore::GC::FreeMemory\<close>: nothing for a null pointer, else the managed \<^verbatim>\<open>FreeMemory\<close>.\<close>

definition FreeMemory :: "managed_env \<Rightarrow> bool \<Rightarrow> bridge \<Rightarrow> error + bridge" where
  "FreeMemory env ptr st = (if \<not> ptr then Inr st else CallStaticMethod env ''FreeMemory'' [] st)"

subsection \<open>Member wrappers\<close>

text \<open>
  The \<^verbatim>\<open>switch\<close> on the access bits in \<^verbatim>\<open>MMethod::MMethod\<close> and \<^verbatim>\<open>MField::MField\<close>,
  case by case; the \<^verbatim>\<open>default\<close> label is \<^verbatim>\<open>CRASH\<close>.
\<close>

definition MMethod_switch :: "32 word \<Rightarrow> error + MVisibility" where
  "MMethod_switch attributes =
     (let v = attributes AND MMethodAttributes_MemberAccessMask in
      if v = MMethodAttributes_Private then Inr Private
      else if v = MMethodAttributes_FamANDAssem then Inr PrivateProtected
      else if v = MMethodAttributes_Assembly then Inr Internal
      else if v = MMethodAttributes_Family then Inr Protected
      else if v = MMethodAttributes_FamORAssem then Inr ProtectedInternal
      else if v = MMethodAttributes_Public then Inr Public
      else Inl Crash)"

definition MField_switch :: "32 word \<Rightarrow> error + MVisibility" where
  "MField_switch attributes =
     (let v = attributes AND MFieldAttributes_FieldAccessMask in
      if v = MFieldAttributes_Private then Inr Private
      else if v = MFieldAttributes_FamANDAssem then Inr PrivateProtected
      else if v = MFieldAttributes_Assembly then Inr Internal
      else if v = MFieldAttributes_Family then Inr Protected
      else if v = MFieldAttributes_FamORAssem then Inr ProtectedInternal
      else if v = MFieldAttributes_Public then Inr Public
      else Inl Crash)"

text \<open>\<^verbatim>\<open>MMethod::MMethod\<close> (the profiler data of \<^verbatim>\<open>COMPILE_WITH_PROFILER\<close> is left out).\<close>

definition MMethod_ctor :: "ref \<Rightarrow> string \<Rightarrow> handle \<Rightarrow> int \<Rightarrow> 32 word \<Rightarrow> error + MMethod" where
  "MMethod_ctor parentClass nm hnd paramsCount attributes =
     (case MMethod_switch attributes of
        Inl e \<Rightarrow> Inl e
      | Inr vis \<Rightarrow>
          Inr \<lparr> MMethod_handle = hnd, MMethod_paramsCount = paramsCount,
                MMethod_parentClass = parentClass, MMethod_name = nm,
                MMethod_visibility = vis,
                MMethod_isStatic = (attributes AND MMethodAttributes_Static = MMethodAttributes_Static),
                MMethod_hasCachedAttributes = False, MMethod_hasCachedSignature = False \<rparr>)"

text \<open>\<^verbatim>\<open>MField::MField\<close>.\<close>

definition MField_ctor :: "ref \<Rightarrow> handle \<Rightarrow> string \<Rightarrow> handle \<Rightarrow> 32 word \<Rightarrow> error + MField" where
  "MField_ctor parentClass hnd nm type attributes =
     (case MField_switch attributes of
        Inl e \<Rightarrow> Inl e
      | Inr vis \<Rightarrow>
          Inr \<lparr> MField_handle = hnd, MField_type = type, MField_parentClass = parentClass,
                MField_name = nm, MField_visibility = vis,
                MField_isStatic = (attributes AND MFieldAttributes_Static = MFieldAttributes_Static),
                MField_hasCachedAttributes = False \<rparr>)"

text \<open>
  \<^verbatim>\<open>MProperty::MProperty\<close>: an accessor is made for each non-null handle, the getter
  first, each with parameter count 1.
\<close>

definition MProperty_ctor :: "ref \<Rightarrow> string \<Rightarrow> handle \<Rightarrow> handle \<Rightarrow> 32 word \<Rightarrow> 32 word \<Rightarrow> error + MProperty" where
  "MProperty_ctor parentClass nm getterHnd setterHnd getterAttrs setterAttrs =
     (let hasGetMethod = (getterHnd \<noteq> 0) in
      case (if hasGetMethod
            then map_sum id Some (MMethod_ctor parentClass (''get_'' @ nm) getterHnd 1 getterAttrs)
            else Inr None) of
        Inl e \<Rightarrow> Inl e
      | Inr getMethod \<Rightarrow>
          (let hasSetMethod = (setterHnd \<noteq> 0) in
           case (if hasSetMethod
                 then map_sum id Some (MMethod_ctor parentClass (''set_'' @ nm) setterHnd 1 setterAttrs)
                 else Inr None) of
             Inl e \<Rightarrow> Inl e
           | Inr setMethod \<Rightarrow>
               Inr \<lparr> MProperty_parentClass = parentClass, MProperty_name = nm,
                     MProperty_hasCachedAttributes = False,
                     MProperty_hasGetMethod = hasGetMethod, MProperty_getMethod = getMethod,
                     MProperty_hasSetMethod = hasSetMethod, MProperty_setMethod = setMethod \<rparr>))"

definition MProperty_GetGetMethod :: "MProperty \<Rightarrow> MMethod option" where
  "MProperty_GetGetMethod this = MProperty_getMethod this"

definition MProperty_GetSetMethod :: "MProperty \<Rightarrow> MMethod option" where
  "MProperty_GetSetMethod this = MProperty_setMethod this"

text \<open>
  \<^verbatim>\<open>MMethod::Invoke\<close> hands instance, method handle, argument array and exception slot to
  the managed \<^verbatim>\<open>InvokeMethod\<close>; \<^verbatim>\<open>MMethod::InvokeVirtual\<close> calls \<^verbatim>\<open>Invoke\<close>. The result
  is the returned object and the exception slot afterwards.
\<close>

definition MMethod_Invoke ::
  "managed_env \<Rightarrow> MMethod \<Rightarrow> handle \<Rightarrow> handle list option \<Rightarrow> handle option \<Rightarrow> bridge
     \<Rightarrow> error + ((handle \<times> handle option) \<times> bridge)" where
  "MMethod_Invoke env this instance params exception st =
     (case CallStaticMethod env ''InvokeMethod'' [instance, MMethod_handle this] st of
        Inl e \<Rightarrow> Inl e
      | Inr st1 \<Rightarrow> Inr (rt_InvokeMethod env instance (MMethod_handle this) params exception, st1))"

definition MMethod_InvokeVirtual ::
  "managed_env \<Rightarrow> MMethod \<Rightarrow> handle \<Rightarrow> handle list option \<Rightarrow> handle option \<Rightarrow> bridge
     \<Rightarrow> error + ((handle \<times> handle option) \<times> bridge)" where
  "MMethod_InvokeVirtual env this instance params exception st =
     MMethod_Invoke env this instance params exception st"

subsection \<open>GC handles\<close>

definition GCHandle_NewWeak :: "managed_env \<Rightarrow> handle \<Rightarrow> bool \<Rightarrow> bridge \<Rightarrow> error + (handle \<times> bridge)" where
  "GCHandle_NewWeak env obj trackResurrection st =
     (case CallStaticMethod env ''NewGCHandleWeak'' [obj] st of
        Inl e \<Rightarrow> Inl e
      | Inr st1 \<Rightarrow> Inr (rt_NewGCHandleWeak env obj trackResurrection, st1))"

text \<open>\<^verbatim>\<open>MCore::GCHandle::GetTarget\<close> casts the handle to an object pointer and calls nothing.\<close>

definition GCHandle_GetTarget :: "handle \<Rightarrow> handle" where
  "GCHandle_GetTarget hnd = hnd"

subsection \<open>Classes\<close>

text \<open>The \<^verbatim>\<open>switch\<close> on the visibility bits in \<^verbatim>\<open>MClass::MClass\<close>.\<close>

definition MClass_switch :: "32 word \<Rightarrow> error + MVisibility" where
  "MClass_switch attributes =
     (let v = attributes AND MTypeAttributes_VisibilityMask in
      if v = MTypeAttributes_NotPublic \<or> v = MTypeAttributes_NestedPrivate then Inr Private
      else if v = MTypeAttributes_Public \<or> v = MTypeAttributes_NestedPublic then Inr Public
      else if v = MTypeAttributes_NestedFamily \<or> v = MTypeAttributes_NestedAssembly then Inr Internal
      else if v = MTypeAttributes_NestedFamORAssem then Inr ProtectedInternal
      else if v = MTypeAttributes_NestedFamANDAssem then Inr PrivateProtected
      else Inl Crash)"

text \<open>
  \<^verbatim>\<open>MClass::MClass\<close>, constructing the object at address \<open>this\<close>: the handle is asserted
  non-null, the attributes are decoded, the runtime is asked whether the type is a value
  type and an enum, and the object registers itself in \<^verbatim>\<open>classHandles\<close> under its handle.
\<close>

definition MClass_ctor ::
  "managed_env \<Rightarrow> ref \<Rightarrow> ref \<Rightarrow> handle \<Rightarrow> string \<Rightarrow> string \<Rightarrow> string \<Rightarrow> 32 word \<Rightarrow> bridge \<Rightarrow> error + bridge" where
  "MClass_ctor env this parentAssembly hnd nm fullnm ns attributes st =
     (if hnd = 0 then Inl AssertFailed
      else case MClass_switch attributes of
        Inl e \<Rightarrow> Inl e
      | Inr vis \<Rightarrow>
          (let staticClassFlags = MTypeAttributes_Abstract OR MTypeAttributes_Sealed;
               isStatic = (attributes AND staticClassFlags = staticClassFlags);
               isSealed = (\<not> isStatic \<and> attributes AND MTypeAttributes_Sealed = MTypeAttributes_Sealed);
               isAbstract = (\<not> isStatic \<and> attributes AND MTypeAttributes_Abstract = MTypeAttributes_Abstract);
               isInterface = (attributes AND MTypeAttributes_ClassSemanticsMask = MTypeAttributes_Interface)
           in case CallStaticMethod env ''TypeIsValueType'' [hnd] st of
                Inl e \<Rightarrow> Inl e
              | Inr st1 \<Rightarrow>
                  (case CallStaticMethod env ''TypeIsEnum'' [hnd] st1 of
                     Inl e \<Rightarrow> Inl e
                   | Inr st2 \<Rightarrow>
                       (case Dictionary_Add (classHandles st2) hnd this of
                          Inl e \<Rightarrow> Inl e
                        | Inr d \<Rightarrow>
                            Inr (st2\<lparr>classHandles := d,
                                     classes := (classes st2)(this \<mapsto>
                                       \<lparr> MClass_handle = hnd, MClass_name = nm, MClass_namespace = ns,
                                         MClass_assembly = parentAssembly, MClass_fullname = fullnm,
                                         MClass_visibility = vis, MClass_isStatic = isStatic,
                                         MClass_isSealed = isSealed, MClass_isAbstract = isAbstract,
                                         MClass_isInterface = isInterface,
                                         MClass_isValueType = rt_TypeIsValueType env hnd,
                                         MClass_isEnum = rt_TypeIsEnum env hnd,
                                         MClass_hasCachedProperties = False, MClass_hasCachedFields = False,
                                         MClass_hasCachedMethods = False, MClass_hasCachedAttributes = False,
                                         MClass_hasCachedEvents = False, MClass_hasCachedInterfaces = False,
                                         MClass_methods = [], MClass_fields = [],
                                         MClass_properties = [] \<rparr>)\<rparr>)))))"

text \<open>\<^verbatim>\<open>New<MClass>(...)\<close>: allocate, then construct in place.\<close>

definition New_MClass ::
  "managed_env \<Rightarrow> ref \<Rightarrow> handle \<Rightarrow> string \<Rightarrow> string \<Rightarrow> string \<Rightarrow> 32 word \<Rightarrow> bridge \<Rightarrow> error + (ref \<times> bridge)" where
  "New_MClass env parentAssembly hnd nm fullnm ns attributes st =
     (case MClass_ctor env (fst (allocate st)) parentAssembly hnd nm fullnm ns attributes (snd (allocate st)) of
        Inl e \<Rightarrow> Inl e
      | Inr st1 \<Rightarrow> Inr (fst (allocate st), st1))"

text \<open>\<^verbatim>\<open>klass->GetFullName()\<close>, through a pointer that may be null or dangling.\<close>

definition MClass_GetFullName :: "ref \<Rightarrow> bridge \<Rightarrow> error + string" where
  "MClass_GetFullName this st =
     (if this = 0 then Inl NullDeref
      else case classes st this of None \<Rightarrow> Inl NullDeref | Some c \<Rightarrow> Inr (MClass_fullname c))"

subsection \<open>The identity maps\<close>

definition GetAssembly :: "handle \<Rightarrow> bridge \<Rightarrow> ref" where
  "GetAssembly assemblyHandle st =
     (case Dictionary_TryGet (assemblyHandles st) assemblyHandle of Some assembly \<Rightarrow> assembly | None \<Rightarrow> 0)"

text \<open>\<^verbatim>\<open>GetClass\<close>: the lookup fills the local \<^verbatim>\<open>klass\<close>, and the function returns \<^verbatim>\<open>nullptr\<close>.\<close>

definition GetClass :: "handle \<Rightarrow> bridge \<Rightarrow> ref" where
  "GetClass typeHnd st =
     (let klass = (case Dictionary_TryGet (classHandles st) typeHnd of Some k \<Rightarrow> k | None \<Rightarrow> 0)
      in 0)"

text \<open>
  \<^verbatim>\<open>MAssembly::GetClasses\<close>. The loop makes one class per record the runtime lists, adds
  it to \<^verbatim>\<open>_classes\<close> under its full name and releases the three strings. The lock, the
  timing and the log line are left out.
\<close>

fun GetClasses_loop :: "managed_env \<Rightarrow> ref \<Rightarrow> NativeClassDefinitions list \<Rightarrow> bridge \<Rightarrow> error + bridge" where
  "GetClasses_loop env this [] st = Inr st"
| "GetClasses_loop env this (managedClass # rest) st =
     (case New_MClass env this (typeHandle managedClass) (name managedClass) (fullname managedClass)
             (namespace managedClass) (typeAttributes managedClass) st of
        Inl e \<Rightarrow> Inl e
      | Inr (klass, st1) \<Rightarrow>
          (case MClass_GetFullName klass st1 of
             Inl e \<Rightarrow> Inl e
           | Inr key \<Rightarrow>
               (case assemblies st1 this of
                  None \<Rightarrow> Inl NullDeref
                | Some a \<Rightarrow>
                    (case Dictionary_Add (MAssembly_classes a) key klass of
                       Inl e \<Rightarrow> Inl e
                     | Inr d \<Rightarrow>
                         (case FreeMemory env True
                                 (st1\<lparr>assemblies := (assemblies st1)(this \<mapsto> a\<lparr>MAssembly_classes := d\<rparr>)\<rparr>) of
                            Inl e \<Rightarrow> Inl e
                          | Inr st2 \<Rightarrow>
                              (case FreeMemory env True st2 of
                                 Inl e \<Rightarrow> Inl e
                               | Inr st3 \<Rightarrow>
                                   (case FreeMemory env True st3 of
                                      Inl e \<Rightarrow> Inl e
                                    | Inr st4 \<Rightarrow> GetClasses_loop env this rest st4)))))))"

definition MAssembly_GetClasses :: "managed_env \<Rightarrow> ref \<Rightarrow> bridge \<Rightarrow> error + bridge" where
  "MAssembly_GetClasses env this st =
     (if this = 0 then Inl NullDeref
      else case assemblies st this of
        None \<Rightarrow> Inl NullDeref
      | Some a \<Rightarrow>
          if MAssembly_hasCachedClasses a \<or> \<not> MAssembly_isLoaded a then Inr st
          else if \<not> Dictionary_IsEmpty (MAssembly_classes a) then Inl AssertFailed
          else (case CallStaticMethod env ''GetManagedClasses'' [MAssembly_handle a] st of
                  Inl e \<Rightarrow> Inl e
                | Inr st1 \<Rightarrow>
                    (case GetClasses_loop env this (rt_GetManagedClasses env (MAssembly_handle a)) st1 of
                       Inl e \<Rightarrow> Inl e
                     | Inr st2 \<Rightarrow>
                         (case FreeMemory env True st2 of
                            Inl e \<Rightarrow> Inl e
                          | Inr st3 \<Rightarrow>
                              (case assemblies st3 this of
                                 None \<Rightarrow> Inl NullDeref
                               | Some a3 \<Rightarrow>
                                   Inr (st3\<lparr>assemblies :=
                                          (assemblies st3)(this \<mapsto> a3\<lparr>MAssembly_hasCachedClasses := True\<rparr>)\<rparr>))))))"

text \<open>
  \<^verbatim>\<open>GetOrCreateClass\<close>. A null handle gives null. A hit in \<^verbatim>\<open>classHandles\<close> returns the
  wrapper found. Otherwise the runtime describes the type, the class is constructed from
  the description (under the handle the description carries), it is added to the class map
  of its assembly when there is one, the description is fetched again when its handle is
  not the one asked for, and the three strings are released.
\<close>

definition GetOrCreateClass :: "managed_env \<Rightarrow> handle \<Rightarrow> bridge \<Rightarrow> error + (ref \<times> bridge)" where
  "GetOrCreateClass env typeHnd st =
     (if typeHnd = 0 then Inr (0, st)
      else case Dictionary_TryGet (classHandles st) typeHnd of
        Some klass \<Rightarrow> if klass = 0 then Inl AssertFailed else Inr (klass, st)
      | None \<Rightarrow>
          (case CallStaticMethod env ''GetManagedClassFromType'' [typeHnd] st of
             Inl e \<Rightarrow> Inl e
           | Inr st1 \<Rightarrow>
               (let classInfo = fst (rt_GetManagedClassFromType env typeHnd);
                    assemblyHandle = snd (rt_GetManagedClassFromType env typeHnd);
                    assembly = GetAssembly assemblyHandle st1
                in case New_MClass env assembly (typeHandle classInfo) (name classInfo) (fullname classInfo)
                          (namespace classInfo) (typeAttributes classInfo) st1 of
                     Inl e \<Rightarrow> Inl e
                   | Inr (klass, st2) \<Rightarrow>
                       (case (if assembly \<noteq> 0
                              then (case MAssembly_GetClasses env assembly st2 of
                                      Inl e \<Rightarrow> Inl e
                                    | Inr st3 \<Rightarrow>
                                        (case MClass_GetFullName klass st3 of
                                           Inl e \<Rightarrow> Inl e
                                         | Inr key \<Rightarrow>
                                             (case assemblies st3 assembly of
                                                None \<Rightarrow> Inl NullDeref
                                              | Some a \<Rightarrow>
                                                  (case Dictionary_Add (MAssembly_classes a) key klass of
                                                     Inl e \<Rightarrow> Inl e
                                                   | Inr d \<Rightarrow>
                                                       Inr (st3\<lparr>assemblies := (assemblies st3)
                                                              (assembly \<mapsto> a\<lparr>MAssembly_classes := d\<rparr>)\<rparr>)))))
                              else Inr st2) of
                          Inl e \<Rightarrow> Inl e
                        | Inr st4 \<Rightarrow>
                            (case (if typeHnd \<noteq> typeHandle classInfo
                                   then CallStaticMethod env ''GetManagedClassFromType'' [typeHnd] st4
                                   else Inr st4) of
                               Inl e \<Rightarrow> Inl e
                             | Inr st5 \<Rightarrow>
                                 (case FreeMemory env True st5 of
                                    Inl e \<Rightarrow> Inl e
                                  | Inr st6 \<Rightarrow>
                                      (case FreeMemory env True st6 of
                                         Inl e \<Rightarrow> Inl e
                                       | Inr st7 \<Rightarrow>
                                           (case FreeMemory env True st7 of
                                              Inl e \<Rightarrow> Inl e
                                            | Inr st8 \<Rightarrow>
                                                if klass = 0 then Inl AssertFailed
                                                else Inr (klass, st8)))))))))"


subsection \<open>Member caches of a class\<close>

text \<open>
  \<^verbatim>\<open>MClass::GetMethods\<close>, \<^verbatim>\<open>GetFields\<close> and \<^verbatim>\<open>GetProperties\<close>: when the flag is set the
  stored sequence is returned; otherwise the runtime lists the members, the loop makes one
  wrapper per record, appends it to the sequence of the class and releases the name, then
  the array is released and the flag is set.
\<close>

fun GetMethods_loop :: "managed_env \<Rightarrow> ref \<Rightarrow> NativeMethodDefinitions list \<Rightarrow> bridge \<Rightarrow> error + bridge" where
  "GetMethods_loop env this [] st = Inr st"
| "GetMethods_loop env this (definition # rest) st =
     (case MMethod_ctor this (md_name definition) (md_handle definition) (numParameters definition)
             (methodAttributes definition) of
        Inl e \<Rightarrow> Inl e
      | Inr method \<Rightarrow>
          (case classes st this of
             None \<Rightarrow> Inl NullDeref
           | Some c \<Rightarrow>
               (case FreeMemory env True
                       (st\<lparr>classes := (classes st)(this \<mapsto> c\<lparr>MClass_methods := MClass_methods c @ [method]\<rparr>)\<rparr>) of
                  Inl e \<Rightarrow> Inl e
                | Inr st1 \<Rightarrow> GetMethods_loop env this rest st1)))"

definition MClass_GetMethods :: "managed_env \<Rightarrow> ref \<Rightarrow> bridge \<Rightarrow> error + (MMethod list \<times> bridge)" where
  "MClass_GetMethods env this st =
     (if this = 0 then Inl NullDeref
      else case classes st this of
        None \<Rightarrow> Inl NullDeref
      | Some c \<Rightarrow>
          if MClass_hasCachedMethods c then Inr (MClass_methods c, st)
          else (case CallStaticMethod env ''GetClassMethods'' [MClass_handle c] st of
                  Inl e \<Rightarrow> Inl e
                | Inr st1 \<Rightarrow>
                    (case GetMethods_loop env this (rt_GetClassMethods env (MClass_handle c)) st1 of
                       Inl e \<Rightarrow> Inl e
                     | Inr st2 \<Rightarrow>
                         (case FreeMemory env True st2 of
                            Inl e \<Rightarrow> Inl e
                          | Inr st3 \<Rightarrow>
                              (case classes st3 this of
                                 None \<Rightarrow> Inl NullDeref
                               | Some c3 \<Rightarrow>
                                   Inr (MClass_methods c3,
                                        st3\<lparr>classes := (classes st3)(this \<mapsto> c3\<lparr>MClass_hasCachedMethods := True\<rparr>)\<rparr>))))))"

fun GetFields_loop :: "managed_env \<Rightarrow> ref \<Rightarrow> NativeFieldDefinitions list \<Rightarrow> bridge \<Rightarrow> error + bridge" where
  "GetFields_loop env this [] st = Inr st"
| "GetFields_loop env this (definition # rest) st =
     (case MField_ctor this (fieldHandle definition) (fd_name definition) (fieldType definition)
             (fieldAttributes definition) of
        Inl e \<Rightarrow> Inl e
      | Inr field \<Rightarrow>
          (case classes st this of
             None \<Rightarrow> Inl NullDeref
           | Some c \<Rightarrow>
               (case FreeMemory env True
                       (st\<lparr>classes := (classes st)(this \<mapsto> c\<lparr>MClass_fields := MClass_fields c @ [field]\<rparr>)\<rparr>) of
                  Inl e \<Rightarrow> Inl e
                | Inr st1 \<Rightarrow> GetFields_loop env this rest st1)))"

definition MClass_GetFields :: "managed_env \<Rightarrow> ref \<Rightarrow> bridge \<Rightarrow> error + (MField list \<times> bridge)" where
  "MClass_GetFields env this st =
     (if this = 0 then Inl NullDeref
      else case classes st this of
        None \<Rightarrow> Inl NullDeref
      | Some c \<Rightarrow>
          if MClass_hasCachedFields c then Inr (MClass_fields c, st)
          else (case CallStaticMethod env ''GetClassFields'' [MClass_handle c] st of
                  Inl e \<Rightarrow> Inl e
                | Inr st1 \<Rightarrow>
                    (case GetFields_loop env this (rt_GetClassFields env (MClass_handle c)) st1 of
                       Inl e \<Rightarrow> Inl e
                     | Inr st2 \<Rightarrow>
                         (case FreeMemory env True st2 of
                            Inl e \<Rightarrow> Inl e
                          | Inr st3 \<Rightarrow>
                              (case classes st3 this of
                                 None \<Rightarrow> Inl NullDeref
                               | Some c3 \<Rightarrow>
                                   Inr (MClass_fields c3,
                                        st3\<lparr>classes := (classes st3)(this \<mapsto> c3\<lparr>MClass_hasCachedFields := True\<rparr>)\<rparr>))))))"

fun GetProperties_loop :: "managed_env \<Rightarrow> ref \<Rightarrow> NativePropertyDefinitions list \<Rightarrow> bridge \<Rightarrow> error + bridge" where
  "GetProperties_loop env this [] st = Inr st"
| "GetProperties_loop env this (definition # rest) st =
     (case MProperty_ctor this (pd_name definition) (getterHandle definition) (setterHandle definition)
             (getterAttributes definition) (setterAttributes definition) of
        Inl e \<Rightarrow> Inl e
      | Inr property \<Rightarrow>
          (case classes st this of
             None \<Rightarrow> Inl NullDeref
           | Some c \<Rightarrow>
               (case FreeMemory env True
                       (st\<lparr>classes := (classes st)(this \<mapsto> c\<lparr>MClass_properties := MClass_properties c @ [property]\<rparr>)\<rparr>) of
                  Inl e \<Rightarrow> Inl e
                | Inr st1 \<Rightarrow> GetProperties_loop env this rest st1)))"

definition MClass_GetProperties :: "managed_env \<Rightarrow> ref \<Rightarrow> bridge \<Rightarrow> error + (MProperty list \<times> bridge)" where
  "MClass_GetProperties env this st =
     (if this = 0 then Inl NullDeref
      else case classes st this of
        None \<Rightarrow> Inl NullDeref
      | Some c \<Rightarrow>
          if MClass_hasCachedProperties c then Inr (MClass_properties c, st)
          else (case CallStaticMethod env ''GetClassProperties'' [MClass_handle c] st of
                  Inl e \<Rightarrow> Inl e
                | Inr st1 \<Rightarrow>
                    (case GetProperties_loop env this (rt_GetClassProperties env (MClass_handle c)) st1 of
                       Inl e \<Rightarrow> Inl e
                     | Inr st2 \<Rightarrow>
                         (case FreeMemory env True st2 of
                            Inl e \<Rightarrow> Inl e
                          | Inr st3 \<Rightarrow>
                              (case classes st3 this of
                                 None \<Rightarrow> Inl NullDeref
                               | Some c3 \<Rightarrow>
                                   Inr (MClass_properties c3,
                                        st3\<lparr>classes := (classes st3)(this \<mapsto> c3\<lparr>MClass_hasCachedProperties := True\<rparr>)\<rparr>))))))"


subsection \<open>Exception records\<close>





subsection \<open>The documented tables, and a runtime to run the bridge on\<close>

text \<open>
  The visibility tables as the specification words them: for types, not-public and
  nested-private are Private, public and nested-public are Public, nested-family and
  nested-assembly are Internal, nested-family-or-assembly is ProtectedInternal,
  nested-family-and-assembly is PrivateProtected; for members, private is Private,
  fam-and-assem is PrivateProtected, assembly is Internal, family is Protected,
  fam-or-assem is ProtectedInternal, public is Public. \<open>None\<close> is a value outside the
  table.
\<close>

definition documented_type_visibility :: "32 word \<Rightarrow> MVisibility option" where
  "documented_type_visibility v =
     (if v = MTypeAttributes_NotPublic \<or> v = MTypeAttributes_NestedPrivate then Some Private
      else if v = MTypeAttributes_Public \<or> v = MTypeAttributes_NestedPublic then Some Public
      else if v = MTypeAttributes_NestedFamily \<or> v = MTypeAttributes_NestedAssembly then Some Internal
      else if v = MTypeAttributes_NestedFamORAssem then Some ProtectedInternal
      else if v = MTypeAttributes_NestedFamANDAssem then Some PrivateProtected
      else None)"

definition documented_member_visibility :: "32 word \<Rightarrow> MVisibility option" where
  "documented_member_visibility v =
     (if v = MMethodAttributes_Private then Some Private
      else if v = MMethodAttributes_FamANDAssem then Some PrivateProtected
      else if v = MMethodAttributes_Assembly then Some Internal
      else if v = MMethodAttributes_Family then Some Protected
      else if v = MMethodAttributes_FamORAssem then Some ProtectedInternal
      else if v = MMethodAttributes_Public then Some Public
      else None)"

text \<open>
  The resolution invariant of the gateway: a name has been looked up through
  \<^verbatim>\<open>get_function_pointer\<close> once if it is in \<^verbatim>\<open>CachedFunctions\<close>, and never otherwise.
\<close>

definition lookups_once :: "bridge \<Rightarrow> bool" where
  "lookups_once st = (\<forall>n. count_list (calls st) (host_lookup n) = (if n \<in> fst ` set (CachedFunctions st) then 1 else 0))"

text \<open>
  A small runtime: every entry point resolves; every object is a \<^verbatim>\<open>System.Exception\<close>
  of type handle 50 with the properties Message, StackTrace and InnerException; the
  exception 101 has the inner exception 102, which has the inner exception 103, which has
  none; the type handle 60 is described under the handle 61.
\<close>

definition example_runtime :: managed_env where
  "example_runtime =
     \<lparr> rt_get_function_pointer = (\<lambda>n. (0, 4096 + length n)),
       rt_GetManagedClassFromType = (\<lambda>h.
          (\<lparr> typeHandle = (if h = 60 then 61 else h), name = ''Exception'',
             fullname = ''System.Exception'', namespace = ''System'',
             typeAttributes = 0x102001 \<rparr>, 0)),
       rt_GetManagedClasses = (\<lambda>h. []),
       rt_TypeIsValueType = (\<lambda>h. False),
       rt_TypeIsEnum = (\<lambda>h. False),
       rt_GetClassMethods = (\<lambda>h.
          [\<lparr> md_name = ''ToString'', numParameters = 0, md_handle = 210, methodAttributes = 0x00C6 \<rparr>]),
       rt_GetClassFields = (\<lambda>h.
          [\<lparr> fd_name = ''_message'', fieldHandle = 220, fieldType = 70, fieldAttributes = 0x0001 \<rparr>]),
       rt_GetClassProperties = (\<lambda>h.
          [\<lparr> pd_name = ''Message'', getterHandle = 201, setterHandle = 0,
             getterAttributes = 0x0946, setterAttributes = 0 \<rparr>,
           \<lparr> pd_name = ''StackTrace'', getterHandle = 202, setterHandle = 0,
             getterAttributes = 0x0946, setterAttributes = 0 \<rparr>,
           \<lparr> pd_name = ''InnerException'', getterHandle = 203, setterHandle = 0,
             getterAttributes = 0x0886, setterAttributes = 0 \<rparr>]),
       rt_GetObjectType = (\<lambda>obj. 50),
       rt_InvokeMethod = (\<lambda>instance method params slot.
          (if method = 203
           then (if instance = 101 then 102 else if instance = 102 then 103 else 0)
           else 10 * instance + (method - 200), slot)),
       rt_NewGCHandleWeak = (\<lambda>obj trackResurrection. 1000 + obj),
       rt_ToString = (\<lambda>s.
          if s = 1011 then ''outer failed'' else if s = 1012 then ''at Outer()''
          else if s = 1021 then ''middle failed'' else if s = 1022 then ''at Middle()''
          else if s = 1031 then ''inner failed'' else if s = 1032 then ''at Inner()''
          else []) \<rparr>"

text \<open>
  What it means for a member cache of the class at \<open>this\<close> to be populated with a
  sequence: the flag is set and the sequence is the stored one.
\<close>

definition methods_cached :: "bridge \<Rightarrow> ref \<Rightarrow> MMethod list \<Rightarrow> bool" where
  "methods_cached st this ms =
     (this \<noteq> 0 \<and> (case classes st this of None \<Rightarrow> False
                    | Some c \<Rightarrow> MClass_hasCachedMethods c \<and> MClass_methods c = ms))"

definition fields_cached :: "bridge \<Rightarrow> ref \<Rightarrow> MField list \<Rightarrow> bool" where
  "fields_cached st this fs =
     (this \<noteq> 0 \<and> (case classes st this of None \<Rightarrow> False
                    | Some c \<Rightarrow> MClass_hasCachedFields c \<and> MClass_fields c = fs))"

definition properties_cached :: "bridge \<Rightarrow> ref \<Rightarrow> MProperty list \<Rightarrow> bool" where
  "properties_cached st this ps =
     (this \<noteq> 0 \<and> (case classes st this of None \<Rightarrow> False
                    | Some c \<Rightarrow> MClass_hasCachedProperties c \<and> MClass_properties c = ps))"

text \<open>How often an entry point has been called with given handle arguments, by the log.\<close>

definition calls_of :: "bridge \<Rightarrow> string \<Rightarrow> handle list \<Rightarrow> nat" where
  "calls_of st nm args = count_list (calls st) (managed_call nm args)"

text \<open>
  How the state grows while classes are looked up and created: no exception record is
  touched, the allocator only moves forward, no assembly is registered, and a handle that
  is in \<^verbatim>\<open>classHandles\<close> stays there with its wrapper.
\<close>

definition extends :: "bridge \<Rightarrow> bridge \<Rightarrow> bool" where
  "extends st st' =
     (exceptions st' = exceptions st \<and> next_ref st \<le> next_ref st' \<and>
      assemblyHandles st' = assemblyHandles st \<and>
      (\<forall>h k. Dictionary_TryGet (classHandles st) h = Some k \<longrightarrow>
             Dictionary_TryGet (classHandles st') h = Some k))"


subsection \<open>Managed values, and the invariant of the wrappers\<close>










section \<open>Properties\<close>

subsection \<open>The function pointer cache\<close>

lemma Inr_bind:
  "((case m of Inl e \<Rightarrow> Inl e | Inr x \<Rightarrow> f x) = Inr r) = (\<exists>x. m = Inr x \<and> f x = Inr r)"
  by (cases m) auto

lemma TryGet_Add:
  "Dictionary_Add d k v = Inr d' \<Longrightarrow>
     Dictionary_TryGet d k = None \<and> d' = d @ [(k, v)] \<and>
     (\<forall>k'. Dictionary_TryGet d' k' = (if k' = k then Some v else Dictionary_TryGet d k'))"
  by (auto simp: Dictionary_Add_def Dictionary_TryGet_def map_add_def split: option.splits)

lemma TryGet_keys: "(Dictionary_TryGet d k = None) = (k \<notin> fst ` set d)"
  by (simp add: Dictionary_TryGet_def map_of_eq_None_iff)

text \<open>
  C2. Resolving an entry point name that the host knows (return code 0) twice gives the
  same pointer both times, and afterwards the log holds exactly one
  \<^verbatim>\<open>get_function_pointer\<close> call for that name: the second resolution is a hit in
  \<^verbatim>\<open>CachedFunctions\<close> and leaves the state as it is. This holds from any state in which
  each cached name has been looked up once and no other name has been, and that
  condition holds again afterwards.
\<close>

theorem resolve_twice:
  assumes inv: "lookups_once st" and rc: "fst (rt_get_function_pointer env nm) = 0"
  shows "\<exists>p st1. GetStaticMethodPointer env nm st = Inr (p, st1) \<and>
           GetStaticMethodPointer env nm st1 = Inr (p, st1) \<and>
           count_list (calls st1) (host_lookup nm) = 1 \<and> lookups_once st1"
proof (cases "Dictionary_TryGet (CachedFunctions st) nm")
  case (Some p)
  then have "nm \<in> fst ` set (CachedFunctions st)"
    using TryGet_keys[of "CachedFunctions st" nm] by simp
  with inv have "count_list (calls st) (host_lookup nm) = 1"
    by (simp add: lookups_once_def)
  with Some inv show ?thesis
    by (simp add: GetStaticMethodPointer_def)
next
  case None
  define p where "p = snd (rt_get_function_pointer env nm)"
  define st1 where "st1 = st\<lparr>calls := calls st @ [host_lookup nm], CachedFunctions := CachedFunctions st @ [(nm, p)]\<rparr>"
  from None have fresh: "nm \<notin> fst ` set (CachedFunctions st)"
    by (simp add: TryGet_keys)
  have first: "GetStaticMethodPointer env nm st = Inr (p, st1)"
    using None rc by (simp add: GetStaticMethodPointer_def Dictionary_Add_def Let_def p_def st1_def)
  have hit: "Dictionary_TryGet (CachedFunctions st1) nm = Some p"
    using None by (simp add: st1_def Dictionary_TryGet_def map_add_def)
  then have second: "GetStaticMethodPointer env nm st1 = Inr (p, st1)"
    by (simp add: GetStaticMethodPointer_def)
  from inv fresh have "count_list (calls st) (host_lookup nm) = 0"
    by (simp add: lookups_once_def)
  then have once: "count_list (calls st1) (host_lookup nm) = 1"
    by (simp add: st1_def)
  have "lookups_once st1"
    unfolding lookups_once_def
  proof
    fix n
    show "count_list (calls st1) (host_lookup n) = (if n \<in> fst ` set (CachedFunctions st1) then 1 else 0)"
      using inv fresh by (cases "n = nm") (auto simp: lookups_once_def st1_def)
  qed
  with first second once show ?thesis by blast
qed

theorem resolve_twice_witness:
  "lookups_once initial_bridge \<and> fst (rt_get_function_pointer example_runtime ''NewObject'') = 0 \<and>
   (\<exists>p st1. GetStaticMethodPointer example_runtime ''NewObject'' initial_bridge = Inr (p, st1) \<and>
      GetStaticMethodPointer example_runtime ''NewObject'' st1 = Inr (p, st1) \<and>
      count_list (calls st1) (host_lookup ''NewObject'') = 1 \<and> lookups_once st1)"
proof -
  have inv: "lookups_once initial_bridge"
    by (simp add: lookups_once_def initial_bridge_def)
  have rc: "fst (rt_get_function_pointer example_runtime ''NewObject'') = 0"
    by (simp add: example_runtime_def)
  from resolve_twice[OF inv rc] inv rc show ?thesis by simp
qed

subsection \<open>Attribute decoding\<close>

lemma and7_cases:
  "(a::32 word) AND 7 = 0 \<or> a AND 7 = 1 \<or> a AND 7 = 2 \<or> a AND 7 = 3 \<or>
   a AND 7 = 4 \<or> a AND 7 = 5 \<or> a AND 7 = 6 \<or> a AND 7 = 7"
proof -
  have "a AND 7 \<le> 7" by (rule word_and_le1)
  then have le: "unat (a AND 7) \<le> 7" by (simp add: word_le_nat_alt)
  have e: "a AND 7 = word_of_nat (unat (a AND 7))" by simp
  from le have "unat (a AND 7) = 0 \<or> unat (a AND 7) = 1 \<or> unat (a AND 7) = 2 \<or> unat (a AND 7) = 3
      \<or> unat (a AND 7) = 4 \<or> unat (a AND 7) = 5 \<or> unat (a AND 7) = 6 \<or> unat (a AND 7) = 7"
    by arith
  then show ?thesis
    using e by (elim disjE) simp_all
qed

lemma MClass_switch_documented:
  "MClass_switch a = (case documented_type_visibility (a AND 7) of None \<Rightarrow> Inl Crash | Some v \<Rightarrow> Inr v)"
  by (simp add: MClass_switch_def documented_type_visibility_def Let_def)

lemma MClass_switch_total: "MClass_switch a \<noteq> Inl e"
  using and7_cases[of a] by (auto simp: MClass_switch_def Let_def)

lemma MMethod_switch_documented:
  "MMethod_switch a = (case documented_member_visibility (a AND 7) of None \<Rightarrow> Inl Crash | Some v \<Rightarrow> Inr v)"
  by (simp add: MMethod_switch_def documented_member_visibility_def Let_def)

lemma MField_switch_documented:
  "MField_switch a = (case documented_member_visibility (a AND 7) of None \<Rightarrow> Inl Crash | Some v \<Rightarrow> Inr v)"
  by (simp add: MField_switch_def documented_member_visibility_def Let_def)

lemma documented_member_None: "(documented_member_visibility (a AND 7) = None) = (a AND 7 = 0 \<or> a AND 7 = 7)"
  using and7_cases[of a] by (auto simp: documented_member_visibility_def)

lemma GetStaticMethodPointer_frame:
  assumes "GetStaticMethodPointer env nm st = Inr (p, st')"
  shows "classHandles st' = classHandles st \<and> assemblyHandles st' = assemblyHandles st \<and>
         classes st' = classes st \<and> assemblies st' = assemblies st \<and>
         exceptions st' = exceptions st \<and> next_ref st' = next_ref st \<and> statics st' = statics st"
  using assms
  by (auto simp: GetStaticMethodPointer_def Let_def split: option.splits if_splits sum.splits)

lemma CallStaticMethod_frame:
  assumes "CallStaticMethod env nm args st = Inr st'"
  shows "classHandles st' = classHandles st \<and> assemblyHandles st' = assemblyHandles st \<and>
         classes st' = classes st \<and> assemblies st' = assemblies st \<and>
         exceptions st' = exceptions st \<and> next_ref st' = next_ref st"
  using assms
  by (auto simp: CallStaticMethod_def split: option.splits sum.splits dest: GetStaticMethodPointer_frame)

lemma FreeMemory_frame:
  assumes "FreeMemory env ptr st = Inr st'"
  shows "classHandles st' = classHandles st \<and> assemblyHandles st' = assemblyHandles st \<and>
         classes st' = classes st \<and> assemblies st' = assemblies st \<and>
         exceptions st' = exceptions st \<and> next_ref st' = next_ref st"
  using assms
  by (auto simp: FreeMemory_def split: if_splits dest: CallStaticMethod_frame)

lemma MClass_ctor_result:
  assumes "MClass_ctor env this asm h nm fnm ns a st = Inr st'"
  shows "h \<noteq> 0 \<and> Dictionary_Add (classHandles st) h this = Inr (classHandles st') \<and>
         assemblyHandles st' = assemblyHandles st \<and> assemblies st' = assemblies st \<and>
         exceptions st' = exceptions st \<and> next_ref st' = next_ref st \<and>
         (\<exists>vis. MClass_switch a = Inr vis \<and>
           classes st' = (classes st)(this \<mapsto>
              \<lparr> MClass_handle = h, MClass_name = nm, MClass_namespace = ns,
                MClass_assembly = asm, MClass_fullname = fnm,
                MClass_visibility = vis,
                MClass_isStatic = (a AND 0x180 = 0x180),
                MClass_isSealed = (\<not> (a AND 0x180 = 0x180) \<and> a AND 0x100 = 0x100),
                MClass_isAbstract = (\<not> (a AND 0x180 = 0x180) \<and> a AND 0x80 = 0x80),
                MClass_isInterface = (a AND 0x20 = 0x20),
                MClass_isValueType = rt_TypeIsValueType env h,
                MClass_isEnum = rt_TypeIsEnum env h,
                MClass_hasCachedProperties = False, MClass_hasCachedFields = False,
                MClass_hasCachedMethods = False, MClass_hasCachedAttributes = False,
                MClass_hasCachedEvents = False, MClass_hasCachedInterfaces = False,
                MClass_methods = [], MClass_fields = [], MClass_properties = [] \<rparr>))"
proof -
  from assms obtain vis st1 st2 d where
    h0: "h \<noteq> 0" and sw: "MClass_switch a = Inr vis"
    and c1: "CallStaticMethod env ''TypeIsValueType'' [h] st = Inr st1"
    and c2: "CallStaticMethod env ''TypeIsEnum'' [h] st1 = Inr st2"
    and add: "Dictionary_Add (classHandles st2) h this = Inr d"
    and st': "classHandles st' = d" "assemblyHandles st' = assemblyHandles st2"
      "assemblies st' = assemblies st2" "exceptions st' = exceptions st2" "next_ref st' = next_ref st2"
      "classes st' = (classes st2)(this \<mapsto>
              \<lparr> MClass_handle = h, MClass_name = nm, MClass_namespace = ns,
                MClass_assembly = asm, MClass_fullname = fnm,
                MClass_visibility = vis,
                MClass_isStatic = (a AND 0x180 = 0x180),
                MClass_isSealed = (\<not> (a AND 0x180 = 0x180) \<and> a AND 0x100 = 0x100),
                MClass_isAbstract = (\<not> (a AND 0x180 = 0x180) \<and> a AND 0x80 = 0x80),
                MClass_isInterface = (a AND 0x20 = 0x20),
                MClass_isValueType = rt_TypeIsValueType env h,
                MClass_isEnum = rt_TypeIsEnum env h,
                MClass_hasCachedProperties = False, MClass_hasCachedFields = False,
                MClass_hasCachedMethods = False, MClass_hasCachedAttributes = False,
                MClass_hasCachedEvents = False, MClass_hasCachedInterfaces = False,
                MClass_methods = [], MClass_fields = [], MClass_properties = [] \<rparr>)"
    by (auto simp: MClass_ctor_def Let_def split: if_splits sum.splits)
  from CallStaticMethod_frame[OF c1] CallStaticMethod_frame[OF c2] h0 sw add st'
  show ?thesis by simp
qed

lemma bit_mask_single: "n < 32 \<Longrightarrow> ((a::32 word) AND 2 ^ n = 2 ^ n) = bit a n"
  apply (rule iffI)
   apply (drule arg_cong[where f="\<lambda>w. bit w n"])
   apply (simp add: bit_simps)
  apply (rule bit_eqI)
  apply (auto simp add: bit_simps)
  done

lemma bit_mask_pair:
  "m < 32 \<Longrightarrow> n < 32 \<Longrightarrow> ((a::32 word) AND (2 ^ m OR 2 ^ n) = (2 ^ m OR 2 ^ n)) = (bit a m \<and> bit a n)"
  apply (rule iffI)
   apply (rule conjI)
    apply (drule arg_cong[where f="\<lambda>w. bit w m"])
    apply (simp add: bit_simps)
   apply (drule arg_cong[where f="\<lambda>w. bit w n"])
   apply (simp add: bit_simps)
  apply (rule bit_eqI)
  apply (auto simp add: bit_simps)
  done

lemma abstract_sealed_bits: "((a::32 word) AND 0x180 = 0x180) = (bit a 7 \<and> bit a 8)"
  using bit_mask_pair[of 7 8 a] by simp

lemma sealed_bit: "((a::32 word) AND 0x100 = 0x100) = bit a 8"
  using bit_mask_single[of 8 a] by simp

lemma abstract_bit: "((a::32 word) AND 0x80 = 0x80) = bit a 7"
  using bit_mask_single[of 7 a] by simp

text \<open>
  C4. Whenever \<^verbatim>\<open>MClass::MClass\<close> completes, the class it constructed is static exactly
  when both the Abstract bit (0x80, bit 7) and the Sealed bit (0x100, bit 8) of the
  attributes are set; a static class reports neither sealed nor abstract, and a class
  that is not static reports each of the two bits as it is.
\<close>

theorem static_class_flags:
  assumes "MClass_ctor env this asm h nm fnm ns a st = Inr st'"
  shows "\<exists>c. classes st' this = Some c \<and>
           (MClass_isStatic c \<longleftrightarrow> bit a 7 \<and> bit a 8) \<and>
           (MClass_isStatic c \<longrightarrow> \<not> MClass_isSealed c \<and> \<not> MClass_isAbstract c) \<and>
           (\<not> MClass_isStatic c \<longrightarrow> (MClass_isSealed c \<longleftrightarrow> bit a 8) \<and> (MClass_isAbstract c \<longleftrightarrow> bit a 7))"
proof -
  from MClass_ctor_result[OF assms] obtain c where
    c: "classes st' this = Some c" and
    flags: "MClass_isStatic c = (a AND 0x180 = 0x180)"
      "MClass_isSealed c = (\<not> (a AND 0x180 = 0x180) \<and> a AND 0x100 = 0x100)"
      "MClass_isAbstract c = (\<not> (a AND 0x180 = 0x180) \<and> a AND 0x80 = 0x80)"
    by auto
  show ?thesis
    using c flags by (simp add: abstract_sealed_bits sealed_bit abstract_bit)
qed

theorem static_class_flags_witness:
  "case MClass_ctor example_runtime 5 0 50 ''Math'' ''System.Math'' ''System'' 0x100181 initial_bridge of
     Inl e \<Rightarrow> False
   | Inr st' \<Rightarrow> (case classes st' 5 of None \<Rightarrow> False
        | Some c \<Rightarrow> MClass_isStatic c \<and> \<not> MClass_isSealed c \<and> \<not> MClass_isAbstract c)"
proof -
  obtain st' where run: "MClass_ctor example_runtime 5 0 50 ''Math'' ''System.Math'' ''System'' 0x100181 initial_bridge = Inr st'"
    by (simp add: MClass_ctor_def MClass_switch_def CallStaticMethod_def GetStaticMethodPointer_def
        Dictionary_Add_def Dictionary_TryGet_def example_runtime_def initial_bridge_def Let_def)
  have b: "bit (0x100181 :: 32 word) 7" "bit (0x100181 :: 32 word) 8"
    by (simp_all add: abstract_bit[symmetric] sealed_bit[symmetric])
  from static_class_flags[OF run] b show ?thesis
    by (auto simp: run)
qed

text \<open>
  C3. The visibility a wrapper gets is the one the documented table gives for the three
  access bits. A method or field constructor returns the wrapper with the mapped
  visibility when the bits are in the table and takes the \<^verbatim>\<open>CRASH\<close> path when they are
  not, which for members is the values 0 and 7; it never assigns a default. For types all
  eight values of the bits are in the table, so \<^verbatim>\<open>MClass::MClass\<close> never takes the
  \<^verbatim>\<open>CRASH\<close> path, and a class it constructs has the mapped visibility.
\<close>

theorem visibility_decoding:
  "map_sum id MMethod_visibility (MMethod_ctor parentClass nm hnd paramsCount a) =
     (case documented_member_visibility (a AND 7) of None \<Rightarrow> Inl Crash | Some v \<Rightarrow> Inr v) \<and>
   map_sum id MField_visibility (MField_ctor parentClass hnd nm type a) =
     (case documented_member_visibility (a AND 7) of None \<Rightarrow> Inl Crash | Some v \<Rightarrow> Inr v) \<and>
   (documented_member_visibility (a AND 7) = None \<longleftrightarrow> a AND 7 = 0 \<or> a AND 7 = 7) \<and>
   documented_type_visibility (a AND 7) \<noteq> None \<and>
   MClass_ctor env this asm hnd nm fnm ns a st \<noteq> Inl Crash \<and>
   (MClass_ctor env this asm hnd nm fnm ns a st = Inr st' \<longrightarrow>
      map_option MClass_visibility (classes st' this) = documented_type_visibility (a AND 7))"
proof -
  have m: "map_sum id MMethod_visibility (MMethod_ctor parentClass nm hnd paramsCount a) =
     (case documented_member_visibility (a AND 7) of None \<Rightarrow> Inl Crash | Some v \<Rightarrow> Inr v)"
    by (simp add: MMethod_ctor_def MMethod_switch_documented split: option.splits)
  have f: "map_sum id MField_visibility (MField_ctor parentClass hnd nm type a) =
     (case documented_member_visibility (a AND 7) of None \<Rightarrow> Inl Crash | Some v \<Rightarrow> Inr v)"
    by (simp add: MField_ctor_def MField_switch_documented split: option.splits)
  have t: "documented_type_visibility (a AND 7) \<noteq> None"
    using MClass_switch_total[of a Crash] by (auto simp: MClass_switch_documented split: option.splits)
  have nc: "MClass_ctor env this asm hnd nm fnm ns a st \<noteq> Inl Crash"
  proof
    assume crash: "MClass_ctor env this asm hnd nm fnm ns a st = Inl Crash"
    obtain vis where vis: "MClass_switch a = Inr vis"
      using MClass_switch_total[of a] by (cases "MClass_switch a") auto
    have c1: "CallStaticMethod env n args s \<noteq> Inl Crash" for n args s
      by (auto simp: CallStaticMethod_def GetStaticMethodPointer_def Dictionary_Add_def Let_def
          split: option.splits sum.splits if_splits)
    from crash vis c1 show False
      by (auto simp: MClass_ctor_def Let_def Dictionary_Add_def split: if_splits sum.splits option.splits)
  qed
  have c: "MClass_ctor env this asm hnd nm fnm ns a st = Inr st' \<longrightarrow>
      map_option MClass_visibility (classes st' this) = documented_type_visibility (a AND 7)"
  proof
    assume run: "MClass_ctor env this asm hnd nm fnm ns a st = Inr st'"
    from MClass_ctor_result[OF run] obtain vis c where
      "MClass_switch a = Inr vis" "classes st' this = Some c" "MClass_visibility c = vis"
      by auto
    then show "map_option MClass_visibility (classes st' this) = documented_type_visibility (a AND 7)"
      by (simp add: MClass_switch_documented split: option.splits)
  qed
  from m f t nc c documented_member_None[of a] show ?thesis by blast
qed

theorem visibility_decoding_witness:
  "case MClass_ctor example_runtime 5 0 50 ''Exception'' ''System.Exception'' ''System'' 0x102001 initial_bridge of
     Inl e \<Rightarrow> False
   | Inr st' \<Rightarrow> map_option MClass_visibility (classes st' 5) = Some Public"
proof -
  obtain st' where run: "MClass_ctor example_runtime 5 0 50 ''Exception'' ''System.Exception'' ''System'' 0x102001 initial_bridge = Inr st'"
    by (simp add: MClass_ctor_def MClass_switch_def CallStaticMethod_def GetStaticMethodPointer_def
        Dictionary_Add_def Dictionary_TryGet_def example_runtime_def initial_bridge_def Let_def)
  from visibility_decoding[where a="0x102001" and env=example_runtime and this=5 and asm=0 and hnd=50
      and nm="''Exception''" and fnm="''System.Exception''" and ns="''System''"
      and st=initial_bridge and st'=st'] run
  show ?thesis
    by (simp add: documented_type_visibility_def)
qed

subsection \<open>Properties, invocation, class lookup\<close>

text \<open>
  C7. A property constructed from a non-null getter handle has a get-accessor named
  \<^verbatim>\<open>get_\<close> followed by the property name, and from a null getter handle a null
  get-accessor; the same holds for the setter handle, the set-accessor and \<^verbatim>\<open>set_\<close>.
  So a non-null getter with a null setter gives a non-null get-accessor of that name and
  a null set-accessor.
\<close>

theorem property_accessors:
  assumes "MProperty_ctor parentClass nm getterHnd setterHnd getterAttrs setterAttrs = Inr p"
  shows "(getterHnd \<noteq> 0 \<longrightarrow>
            (\<exists>m. MProperty_GetGetMethod p = Some m \<and> MMethod_name m = ''get_'' @ nm \<and> MMethod_handle m = getterHnd)) \<and>
         (getterHnd = 0 \<longrightarrow> MProperty_GetGetMethod p = None) \<and>
         (setterHnd \<noteq> 0 \<longrightarrow>
            (\<exists>m. MProperty_GetSetMethod p = Some m \<and> MMethod_name m = ''set_'' @ nm \<and> MMethod_handle m = setterHnd)) \<and>
         (setterHnd = 0 \<longrightarrow> MProperty_GetSetMethod p = None)"
  using assms
  by (auto simp: MProperty_ctor_def MProperty_GetGetMethod_def MProperty_GetSetMethod_def
      MMethod_ctor_def Let_def split: if_splits sum.splits)

theorem property_accessors_witness:
  "case MProperty_ctor 5 ''Message'' 201 0 0x0946 0 of
     Inl e \<Rightarrow> False
   | Inr p \<Rightarrow> map_option MMethod_name (MProperty_GetGetMethod p) = Some ''get_Message'' \<and>
              MProperty_GetSetMethod p = None"
proof -
  obtain p where run: "MProperty_ctor 5 ''Message'' 201 0 0x0946 0 = Inr p"
    by (simp add: MProperty_ctor_def MMethod_ctor_def MMethod_switch_def Let_def)
  from property_accessors[OF run] show ?thesis
    by (auto simp: run)
qed

text \<open>
  C8. \<^verbatim>\<open>MMethod::InvokeVirtual\<close> gives the result, the exception slot and the state that
  \<^verbatim>\<open>MMethod::Invoke\<close> gives on the same method, instance, arguments and slot.
\<close>

theorem InvokeVirtual_is_Invoke:
  "MMethod_InvokeVirtual env this instance params exception st =
   MMethod_Invoke env this instance params exception st"
  by (simp add: MMethod_InvokeVirtual_def)

text \<open>
  \<^verbatim>\<open>MCore::GCHandle::NewWeak\<close> returns what the managed \<^verbatim>\<open>NewGCHandleWeak\<close> returns, and
  \<^verbatim>\<open>MCore::GCHandle::GetTarget\<close> is a cast of the handle. Whether an object is live or
  has become unreachable is a state of the collector of the managed runtime, which the
  native code neither holds nor asks for.
\<close>

lemma GetTarget_is_cast: "GCHandle_GetTarget hnd = hnd"
  by (simp add: GCHandle_GetTarget_def)

text \<open>
  C10. \<^verbatim>\<open>GetClass\<close> returns null for every type handle in every state, also when the
  handle is in \<^verbatim>\<open>classHandles\<close>.
\<close>

theorem GetClass_returns_null: "GetClass typeHnd st = 0"
  by (simp add: GetClass_def)

subsection \<open>Member caches\<close>

lemmas gateway_defs = CallStaticMethod_def GetStaticMethodPointer_def FreeMemory_def
  Dictionary_Add_def Dictionary_TryGet_def Dictionary_IsEmpty_def allocate_def

lemmas wrapper_defs = MMethod_ctor_def MMethod_switch_def MField_ctor_def MField_switch_def
  MProperty_ctor_def MClass_ctor_def MClass_switch_def New_MClass_def MClass_GetFullName_def
  GetAssembly_def

lemma GetStaticMethodPointer_calls_of:
  "GetStaticMethodPointer env nm st = Inr (p, st') \<Longrightarrow> calls_of st' n a = calls_of st n a"
  by (auto simp: GetStaticMethodPointer_def calls_of_def Let_def split: option.splits if_splits sum.splits)

lemma CallStaticMethod_calls_of:
  "CallStaticMethod env nm args st = Inr st' \<Longrightarrow>
   calls_of st' n a = calls_of st n a + (if n = nm \<and> a = args then 1 else 0)"
  by (auto simp: CallStaticMethod_def calls_of_def split: option.splits sum.splits
      dest!: GetStaticMethodPointer_calls_of[where n=n and a=a, unfolded calls_of_def])

lemma FreeMemory_calls_of:
  "FreeMemory env ptr st = Inr st' \<Longrightarrow> n \<noteq> ''FreeMemory'' \<Longrightarrow> calls_of st' n a = calls_of st n a"
  by (auto simp: FreeMemory_def split: if_splits dest!: CallStaticMethod_calls_of[where n=n and a=a])

lemma calls_of_classes [simp]: "calls_of (st\<lparr>classes := x\<rparr>) n a = calls_of st n a"
  by (simp add: calls_of_def)

lemma GetMethods_loop_calls_of:
  "GetMethods_loop env this defs st = Inr st' \<Longrightarrow> n \<noteq> ''FreeMemory'' \<Longrightarrow> calls_of st' n a = calls_of st n a"
proof (induction defs arbitrary: st)
  case Nil
  then show ?case by simp
next
  case (Cons d defs)
  from Cons.prems(1) obtain x st1 where
    f: "FreeMemory env True (st\<lparr>classes := x\<rparr>) = Inr st1"
    and rest: "GetMethods_loop env this defs st1 = Inr st'"
    by (auto simp: Inr_bind split: option.splits)
  from FreeMemory_calls_of[OF f Cons.prems(2)] Cons.IH[OF rest Cons.prems(2)]
  show ?case by simp
qed

lemma GetMethods_counts:
  assumes "MClass_GetMethods env this st = Inr (xs, st')" and "classes st this = Some c"
  shows "calls_of st' ''GetClassMethods'' [MClass_handle c] =
         calls_of st ''GetClassMethods'' [MClass_handle c] + (if MClass_hasCachedMethods c then 0 else 1)"
  using assms
  apply (simp add: MClass_GetMethods_def Inr_bind split: if_splits option.splits)
  apply (auto dest!: CallStaticMethod_calls_of[where n="''GetClassMethods''" and a="[MClass_handle c]"]
      FreeMemory_calls_of[where n="''GetClassMethods''" and a="[MClass_handle c]"]
      GetMethods_loop_calls_of[where n="''GetClassMethods''" and a="[MClass_handle c]"])
  done

lemma GetFields_loop_calls_of:
  "GetFields_loop env this defs st = Inr st' \<Longrightarrow> n \<noteq> ''FreeMemory'' \<Longrightarrow> calls_of st' n a = calls_of st n a"
proof (induction defs arbitrary: st)
  case Nil
  then show ?case by simp
next
  case (Cons d defs)
  from Cons.prems(1) obtain x st1 where
    f: "FreeMemory env True (st\<lparr>classes := x\<rparr>) = Inr st1"
    and rest: "GetFields_loop env this defs st1 = Inr st'"
    by (auto simp: Inr_bind split: option.splits)
  from FreeMemory_calls_of[OF f Cons.prems(2)] Cons.IH[OF rest Cons.prems(2)]
  show ?case by simp
qed

lemma GetFields_counts:
  assumes "MClass_GetFields env this st = Inr (xs, st')" and "classes st this = Some c"
  shows "calls_of st' ''GetClassFields'' [MClass_handle c] =
         calls_of st ''GetClassFields'' [MClass_handle c] + (if MClass_hasCachedFields c then 0 else 1)"
  using assms
  apply (simp add: MClass_GetFields_def Inr_bind split: if_splits option.splits)
  apply (auto dest!: CallStaticMethod_calls_of[where n="''GetClassFields''" and a="[MClass_handle c]"]
      FreeMemory_calls_of[where n="''GetClassFields''" and a="[MClass_handle c]"]
      GetFields_loop_calls_of[where n="''GetClassFields''" and a="[MClass_handle c]"])
  done

lemma GetProperties_loop_calls_of:
  "GetProperties_loop env this defs st = Inr st' \<Longrightarrow> n \<noteq> ''FreeMemory'' \<Longrightarrow> calls_of st' n a = calls_of st n a"
proof (induction defs arbitrary: st)
  case Nil
  then show ?case by simp
next
  case (Cons d defs)
  from Cons.prems(1) obtain x st1 where
    f: "FreeMemory env True (st\<lparr>classes := x\<rparr>) = Inr st1"
    and rest: "GetProperties_loop env this defs st1 = Inr st'"
    by (auto simp: Inr_bind split: option.splits)
  from FreeMemory_calls_of[OF f Cons.prems(2)] Cons.IH[OF rest Cons.prems(2)]
  show ?case by simp
qed

lemma GetProperties_counts:
  assumes "MClass_GetProperties env this st = Inr (xs, st')" and "classes st this = Some c"
  shows "calls_of st' ''GetClassProperties'' [MClass_handle c] =
         calls_of st ''GetClassProperties'' [MClass_handle c] + (if MClass_hasCachedProperties c then 0 else 1)"
  using assms
  apply (simp add: MClass_GetProperties_def Inr_bind split: if_splits option.splits)
  apply (auto dest!: CallStaticMethod_calls_of[where n="''GetClassProperties''" and a="[MClass_handle c]"]
      FreeMemory_calls_of[where n="''GetClassProperties''" and a="[MClass_handle c]"]
      GetProperties_loop_calls_of[where n="''GetClassProperties''" and a="[MClass_handle c]"])
  done

lemma GetMethods_first:
  assumes "MClass_GetMethods env this st = Inr (ms, st')"
  shows "methods_cached st' this ms"
  using assms
  by (auto simp: MClass_GetMethods_def methods_cached_def split: if_splits option.splits sum.splits)

lemma GetMethods_hit:
  assumes "methods_cached st this ms"
  shows "MClass_GetMethods env this st = Inr (ms, st)"
  using assms
  by (auto simp: MClass_GetMethods_def methods_cached_def split: option.splits)

lemma GetFields_first:
  assumes "MClass_GetFields env this st = Inr (fs, st')"
  shows "fields_cached st' this fs"
  using assms
  by (auto simp: MClass_GetFields_def fields_cached_def split: if_splits option.splits sum.splits)

lemma GetFields_hit:
  assumes "fields_cached st this fs"
  shows "MClass_GetFields env this st = Inr (fs, st)"
  using assms
  by (auto simp: MClass_GetFields_def fields_cached_def split: option.splits)

lemma GetProperties_first:
  assumes "MClass_GetProperties env this st = Inr (ps, st')"
  shows "properties_cached st' this ps"
  using assms
  by (auto simp: MClass_GetProperties_def properties_cached_def split: if_splits option.splits sum.splits)

lemma GetProperties_hit:
  assumes "properties_cached st this ps"
  shows "MClass_GetProperties env this st = Inr (ps, st)"
  using assms
  by (auto simp: MClass_GetProperties_def properties_cached_def split: option.splits)

text \<open>
  C5. When \<^verbatim>\<open>GetMethods\<close>, \<^verbatim>\<open>GetFields\<close> or \<^verbatim>\<open>GetProperties\<close> returns, the
  corresponding flag of the class is set and the returned sequence is the stored one; the
  same call in the resulting state returns the same sequence and leaves the state, and
  with it the log of calls across the boundary, unchanged; and the call itself has added
  one describe call for the handle of the class to the log when the flag was not set
  before, and none when it was. More generally a call in any state where the flag is set
  returns the stored sequence without touching the state.
\<close>

theorem member_caches_once:
  "(MClass_GetMethods env this st = Inr (ms, st') \<longrightarrow>
      methods_cached st' this ms \<and> MClass_GetMethods env this st' = Inr (ms, st') \<and>
      (\<forall>c. classes st this = Some c \<longrightarrow>
         calls_of st' ''GetClassMethods'' [MClass_handle c] =
         calls_of st ''GetClassMethods'' [MClass_handle c] + (if MClass_hasCachedMethods c then 0 else 1))) \<and>
   (MClass_GetFields env this st = Inr (fs, st') \<longrightarrow>
      fields_cached st' this fs \<and> MClass_GetFields env this st' = Inr (fs, st') \<and>
      (\<forall>c. classes st this = Some c \<longrightarrow>
         calls_of st' ''GetClassFields'' [MClass_handle c] =
         calls_of st ''GetClassFields'' [MClass_handle c] + (if MClass_hasCachedFields c then 0 else 1))) \<and>
   (MClass_GetProperties env this st = Inr (ps, st') \<longrightarrow>
      properties_cached st' this ps \<and> MClass_GetProperties env this st' = Inr (ps, st') \<and>
      (\<forall>c. classes st this = Some c \<longrightarrow>
         calls_of st' ''GetClassProperties'' [MClass_handle c] =
         calls_of st ''GetClassProperties'' [MClass_handle c] + (if MClass_hasCachedProperties c then 0 else 1))) \<and>
   (methods_cached st this ms \<longrightarrow> MClass_GetMethods env this st = Inr (ms, st)) \<and>
   (fields_cached st this fs \<longrightarrow> MClass_GetFields env this st = Inr (fs, st)) \<and>
   (properties_cached st this ps \<longrightarrow> MClass_GetProperties env this st = Inr (ps, st))"
proof (intro conjI impI allI)
  assume "MClass_GetMethods env this st = Inr (ms, st')"
  then show "methods_cached st' this ms" by (rule GetMethods_first)
  then show "MClass_GetMethods env this st' = Inr (ms, st')" by (rule GetMethods_hit)
next
  fix c assume "MClass_GetMethods env this st = Inr (ms, st')" "classes st this = Some c"
  then show "calls_of st' ''GetClassMethods'' [MClass_handle c] =
         calls_of st ''GetClassMethods'' [MClass_handle c] + (if MClass_hasCachedMethods c then 0 else 1)"
    by (rule GetMethods_counts)
next
  assume "MClass_GetFields env this st = Inr (fs, st')"
  then show "fields_cached st' this fs" by (rule GetFields_first)
  then show "MClass_GetFields env this st' = Inr (fs, st')" by (rule GetFields_hit)
next
  fix c assume "MClass_GetFields env this st = Inr (fs, st')" "classes st this = Some c"
  then show "calls_of st' ''GetClassFields'' [MClass_handle c] =
         calls_of st ''GetClassFields'' [MClass_handle c] + (if MClass_hasCachedFields c then 0 else 1)"
    by (rule GetFields_counts)
next
  assume "MClass_GetProperties env this st = Inr (ps, st')"
  then show "properties_cached st' this ps" by (rule GetProperties_first)
  then show "MClass_GetProperties env this st' = Inr (ps, st')" by (rule GetProperties_hit)
next
  fix c assume "MClass_GetProperties env this st = Inr (ps, st')" "classes st this = Some c"
  then show "calls_of st' ''GetClassProperties'' [MClass_handle c] =
         calls_of st ''GetClassProperties'' [MClass_handle c] + (if MClass_hasCachedProperties c then 0 else 1)"
    by (rule GetProperties_counts)
next
  assume "methods_cached st this ms"
  then show "MClass_GetMethods env this st = Inr (ms, st)" by (rule GetMethods_hit)
next
  assume "fields_cached st this fs"
  then show "MClass_GetFields env this st = Inr (fs, st)" by (rule GetFields_hit)
next
  assume "properties_cached st this ps"
  then show "MClass_GetProperties env this st = Inr (ps, st)" by (rule GetProperties_hit)
qed

lemma example_class:
  "\<exists>st0 c0. GetOrCreateClass example_runtime 50 initial_bridge = Inr (1, st0) \<and>
     classes st0 1 = Some c0 \<and> MClass_handle c0 = 50 \<and>
     \<not> MClass_hasCachedMethods c0 \<and> \<not> MClass_hasCachedFields c0 \<and> \<not> MClass_hasCachedProperties c0 \<and>
     (\<exists>ms st1. MClass_GetMethods example_runtime 1 st0 = Inr (ms, st1) \<and>
        (\<exists>fs st2. MClass_GetFields example_runtime 1 st1 = Inr (fs, st2) \<and>
           (\<exists>ps st3. MClass_GetProperties example_runtime 1 st2 = Inr (ps, st3))))"
  by (simp add: GetOrCreateClass_def MClass_GetMethods_def MClass_GetFields_def MClass_GetProperties_def
      gateway_defs wrapper_defs example_runtime_def initial_bridge_def Let_def)

theorem member_caches_once_witness:
  "case GetOrCreateClass example_runtime 50 initial_bridge of
     Inl e \<Rightarrow> False
   | Inr (k, st0) \<Rightarrow>
       (case MClass_GetMethods example_runtime k st0 of
          Inl e \<Rightarrow> False
        | Inr (ms, st1) \<Rightarrow>
            methods_cached st1 k ms \<and> MClass_GetMethods example_runtime k st1 = Inr (ms, st1) \<and>
            calls_of st1 ''GetClassMethods'' [50] = calls_of st0 ''GetClassMethods'' [50] + 1 \<and>
            (case MClass_GetFields example_runtime k st1 of
               Inl e \<Rightarrow> False
             | Inr (fs, st2) \<Rightarrow>
                 fields_cached st2 k fs \<and> MClass_GetFields example_runtime k st2 = Inr (fs, st2) \<and>
                 (case MClass_GetProperties example_runtime k st2 of
                    Inl e \<Rightarrow> False
                  | Inr (ps, st3) \<Rightarrow>
                      properties_cached st3 k ps \<and>
                      MClass_GetProperties example_runtime k st3 = Inr (ps, st3))))"
proof -
  from example_class obtain st0 c0 ms st1 fs st2 ps st3 where
    c: "GetOrCreateClass example_runtime 50 initial_bridge = Inr (1, st0)"
    and c0: "classes st0 1 = Some c0" "MClass_handle c0 = 50" "\<not> MClass_hasCachedMethods c0"
    and m: "MClass_GetMethods example_runtime 1 st0 = Inr (ms, st1)"
    and f: "MClass_GetFields example_runtime 1 st1 = Inr (fs, st2)"
    and p: "MClass_GetProperties example_runtime 1 st2 = Inr (ps, st3)"
    by blast
  from member_caches_once[where env=example_runtime and this=1 and st=st0 and st'=st1 and ms=ms] m c0
  have m2: "methods_cached st1 1 ms \<and> MClass_GetMethods example_runtime 1 st1 = Inr (ms, st1) \<and>
      calls_of st1 ''GetClassMethods'' [50] = calls_of st0 ''GetClassMethods'' [50] + 1"
    by auto
  from member_caches_once[where env=example_runtime and this=1 and st=st1 and st'=st2 and fs=fs] f
  have f2: "fields_cached st2 1 fs \<and> MClass_GetFields example_runtime 1 st2 = Inr (fs, st2)"
    by blast
  from member_caches_once[where env=example_runtime and this=1 and st=st2 and st'=st3 and ps=ps] p
  have p2: "properties_cached st3 1 ps \<and> MClass_GetProperties example_runtime 1 st3 = Inr (ps, st3)"
    by blast
  from c m f p m2 f2 p2 show ?thesis
    by simp
qed

subsection \<open>Frame properties of class creation\<close>

lemma extends_refl: "extends st st"
  by (simp add: extends_def)

lemma extends_trans: "extends st st1 \<Longrightarrow> extends st1 st2 \<Longrightarrow> extends st st2"
  by (auto simp: extends_def)

lemma CallStaticMethod_extends: "CallStaticMethod env nm args st = Inr st' \<Longrightarrow> extends st st'"
  by (drule CallStaticMethod_frame) (simp add: extends_def)

lemma FreeMemory_extends: "FreeMemory env ptr st = Inr st' \<Longrightarrow> extends st st'"
  by (drule FreeMemory_frame) (simp add: extends_def)

lemma New_MClass_result:
  assumes "New_MClass env asm h nm fnm ns a st = Inr (k, st')"
  shows "k = Suc (next_ref st) \<and> h \<noteq> 0 \<and> next_ref st' = Suc (next_ref st) \<and>
         Dictionary_Add (classHandles st) h k = Inr (classHandles st') \<and>
         assemblyHandles st' = assemblyHandles st \<and> assemblies st' = assemblies st \<and>
         exceptions st' = exceptions st \<and>
         (\<exists>c. classes st' = (classes st)(k \<mapsto> c) \<and> MClass_handle c = h \<and> MClass_fullname c = fnm)"
proof -
  from assms have k: "k = Suc (next_ref st)"
    and run: "MClass_ctor env k asm h nm fnm ns a (st\<lparr>next_ref := Suc (next_ref st)\<rparr>) = Inr st'"
    by (auto simp: New_MClass_def allocate_def split: sum.splits)
  from MClass_ctor_result[OF run] k show ?thesis by auto
qed

lemma New_MClass_extends:
  assumes "New_MClass env asm h nm fnm ns a st = Inr (k, st')"
  shows "extends st st'"
  using New_MClass_result[OF assms]
  by (auto simp: extends_def dest!: TryGet_Add)

lemma assemblies_update_extends: "extends st (st\<lparr>assemblies := x\<rparr>)"
  by (simp add: extends_def)

lemma GetClasses_loop_extends:
  "GetClasses_loop env this defs st = Inr st' \<Longrightarrow> extends st st'"
proof (induction defs arbitrary: st)
  case Nil
  then show ?case by (simp add: extends_refl)
next
  case (Cons d defs)
  from Cons.prems obtain k st1 a dd st2 st3 st4 where
    new: "New_MClass env this (typeHandle d) (name d) (fullname d) (namespace d) (typeAttributes d) st = Inr (k, st1)"
    and f1: "FreeMemory env True (st1\<lparr>assemblies := (assemblies st1)(this \<mapsto> a\<lparr>MAssembly_classes := dd\<rparr>)\<rparr>) = Inr st2"
    and f2: "FreeMemory env True st2 = Inr st3"
    and f3: "FreeMemory env True st3 = Inr st4"
    and rest: "GetClasses_loop env this defs st4 = Inr st'"
    by (auto split: sum.splits option.splits)
  from New_MClass_extends[OF new] assemblies_update_extends FreeMemory_extends[OF f1]
    FreeMemory_extends[OF f2] FreeMemory_extends[OF f3] Cons.IH[OF rest]
  show ?case by (blast intro: extends_trans)
qed

lemma extends_assemblies: "extends st st' \<Longrightarrow> extends st (st'\<lparr>assemblies := x\<rparr>)"
  by (simp add: extends_def)

lemma MAssembly_GetClasses_extends:
  assumes "MAssembly_GetClasses env this st = Inr st'"
  shows "extends st st'"
  using assms
  apply (auto simp: MAssembly_GetClasses_def extends_refl split: if_splits option.splits sum.splits
      dest!: CallStaticMethod_extends GetClasses_loop_extends FreeMemory_extends)
  apply (rule extends_assemblies)
  apply (blast intro: extends_trans)
  done

lemma New_MClass_registers:
  assumes "New_MClass env asm h nm fnm ns a st = Inr (k, st')"
  shows "extends st st' \<and> k \<noteq> 0 \<and> Dictionary_TryGet (classHandles st') h = Some k"
  using New_MClass_result[OF assms] New_MClass_extends[OF assms]
  by (auto dest!: TryGet_Add)


lemma GetOrCreateClass_registered:
  assumes "GetOrCreateClass env h st = Inr (k, st')" and "h \<noteq> 0"
    and "Dictionary_TryGet (classHandles st) h \<noteq> None \<or> typeHandle (fst (rt_GetManagedClassFromType env h)) = h"
  shows "Dictionary_TryGet (classHandles st') h = Some k \<and> k \<noteq> 0"
  using assms
  apply (simp add: GetOrCreateClass_def Let_def Inr_bind split: if_splits option.splits)
  apply (auto dest!: CallStaticMethod_extends FreeMemory_extends New_MClass_registers MAssembly_GetClasses_extends
      simp: extends_def)
  done

subsection \<open>The identity map of classes\<close>

text \<open>
  For a non-null type handle that is in \<^verbatim>\<open>classHandles\<close> already, or that the runtime
  describes under that same handle: whenever \<^verbatim>\<open>GetOrCreateClass\<close> returns a wrapper, the
  handle is registered with that wrapper, and a second call returns the identical reference
  and leaves the state as it is.
\<close>

lemma GetOrCreateClass_twice:
  assumes "GetOrCreateClass env h st = Inr (k, st')" and "h \<noteq> 0"
    and "Dictionary_TryGet (classHandles st) h \<noteq> None \<or> typeHandle (fst (rt_GetManagedClassFromType env h)) = h"
  shows "Dictionary_TryGet (classHandles st') h = Some k \<and> GetOrCreateClass env h st' = Inr (k, st')"
proof -
  from GetOrCreateClass_registered[OF assms]
  have reg: "Dictionary_TryGet (classHandles st') h = Some k" and k: "k \<noteq> 0"
    by simp_all
  from reg k assms(2) have "GetOrCreateClass env h st' = Inr (k, st')"
    by (simp add: GetOrCreateClass_def)
  with reg show ?thesis by simp
qed

lemma example_first_call:
  "\<exists>st1. GetOrCreateClass example_runtime 50 initial_bridge = Inr (1, st1)"
  by (simp add: GetOrCreateClass_def gateway_defs wrapper_defs example_runtime_def initial_bridge_def Let_def)

lemma GetOrCreateClass_twice_example:
  "\<not> isl (GetOrCreateClass example_runtime 50 initial_bridge) \<and>
   typeHandle (fst (rt_GetManagedClassFromType example_runtime 50)) = 50 \<and>
   GetOrCreateClass example_runtime 50 (snd (projr (GetOrCreateClass example_runtime 50 initial_bridge))) =
     GetOrCreateClass example_runtime 50 initial_bridge"
proof -
  from example_first_call obtain st1 where
    run: "GetOrCreateClass example_runtime 50 initial_bridge = Inr (1, st1)" by blast
  have canon: "typeHandle (fst (rt_GetManagedClassFromType example_runtime 50)) = 50"
    by (simp add: example_runtime_def)
  have "Dictionary_TryGet (classHandles st1) 50 = Some 1 \<and> GetOrCreateClass example_runtime 50 st1 = Inr (1, st1)"
    by (rule GetOrCreateClass_twice[OF run]) (simp_all add: canon)
  with run canon show ?thesis by simp
qed

text \<open>
  C1. Calling \<^verbatim>\<open>GetOrCreateClass\<close> twice with a non-null type handle is to return the
  identical wrapper, the second call hitting the identity map and creating nothing, so that
  there is one wrapper per type handle. The code does not do this for a handle that the
  runtime describes under another handle, the case its own comparison
  \<^verbatim>\<open>typeHandle != classInfo.typeHandle\<close> provides for: \<^verbatim>\<open>MClass::MClass\<close> registers the
  wrapper under the handle of the description, not under the handle asked for. The
  runtime below describes the handle 60 under the handle 61. From the empty maps the first
  call for 60 returns a wrapper and leaves 60 out of \<^verbatim>\<open>classHandles\<close>; the second call
  for 60 misses the identity map, constructs a class for 61 again and stops at the
  assertion of \<^verbatim>\<open>classHandles.Add\<close>. And once 61 has its wrapper, even the first call
  for 60 stops there.
\<close>

theorem GetOrCreateClass_alias_fails:
  "\<not> isl (GetOrCreateClass example_runtime 60 initial_bridge) \<and>
   Dictionary_TryGet (classHandles (snd (projr (GetOrCreateClass example_runtime 60 initial_bridge)))) 60 = None \<and>
   GetOrCreateClass example_runtime 60 (snd (projr (GetOrCreateClass example_runtime 60 initial_bridge))) =
     Inl AssertFailed \<and>
   \<not> isl (GetOrCreateClass example_runtime 61 initial_bridge) \<and>
   GetOrCreateClass example_runtime 60 (snd (projr (GetOrCreateClass example_runtime 61 initial_bridge))) =
     Inl AssertFailed"
  by (simp add: GetOrCreateClass_def gateway_defs wrapper_defs example_runtime_def initial_bridge_def Let_def)

subsection \<open>Exception records\<close>

lemma extends_classes: "extends st st' \<Longrightarrow> extends st (st'\<lparr>classes := x\<rparr>)"
  by (simp add: extends_def)











subsection \<open>The invariant of the wrappers\<close>




















subsection \<open>What the constructor reads\<close>















subsection \<open>The reads return\<close>















subsection \<open>The exception chain\<close>






end
